theory Spec2Isabelle
  imports Main "HOL-Library.Sublist" "HOL-Library.AList"
begin

section \<open>Python values used by the WiFi portal\<close>

text \<open>
  The portal (\<^verbatim>\<open>wifi_portal/app.py\<close>) handles text only. A Python \<^verbatim>\<open>str\<close> and a
  \<^verbatim>\<open>bytes\<close> value are both modelled as \<^typ>\<open>string\<close>, one character for one byte.
  The output of the network tool is taken to be ASCII text: on it \<^verbatim>\<open>decode()\<close> is the
  identity, \<^verbatim>\<open>lower()\<close> maps \<^verbatim>\<open>A-Z\<close> to \<^verbatim>\<open>a-z\<close> and leaves every other character
  alone, and \<^verbatim>\<open>strip()\<close> removes the ASCII white space. On other output the code can
  differ from these definitions (\<^verbatim>\<open>decode()\<close> raises on bytes that are not UTF-8, and
  \<^verbatim>\<open>lower()\<close> and \<^verbatim>\<open>strip()\<close> know the letters and spaces of Unicode); what is proved
  below about particular texts is proved on ASCII texts. An optional argument
  (\<^verbatim>\<open>password=None\<close>) is a \<^typ>\<open>string option\<close>. An exception is a value of
  the type \<open>error\<close> below, and a function that can raise returns a sum with the
  exception on the left.
\<close>

type_synonym bytes = string

datatype error =
    AttributeError
  | TypeError
  | BadRequestKeyError
  | JSONDecodeError
  | FileNotFoundError
  | CalledProcessError
  | OSError

text \<open>Truth value of an optional string: \<^verbatim>\<open>None\<close> and \<^verbatim>\<open>""\<close> are false.\<close>

fun truthy :: "string option \<Rightarrow> bool" where
  "truthy None = False"
| "truthy (Some s) = (s \<noteq> [])"

text \<open>\<^verbatim>\<open>p in s\<close> on strings: \<open>p\<close> occurs in \<open>s\<close> as a contiguous run.\<close>

fun py_in :: "string \<Rightarrow> string \<Rightarrow> bool" where
  "py_in p [] = (p = [])"
| "py_in p (c # cs) = (prefix p (c # cs) \<or> py_in p cs)"

definition lower_table :: "(char \<times> char) list" where
  "lower_table = zip ''ABCDEFGHIJKLMNOPQRSTUVWXYZ'' ''abcdefghijklmnopqrstuvwxyz''"

definition lower_char :: "char \<Rightarrow> char" where
  "lower_char c = (case map_of lower_table c of Some d \<Rightarrow> d | None \<Rightarrow> c)"

definition py_lower :: "string \<Rightarrow> string" where
  "py_lower s = map lower_char s"

definition decode :: "bytes \<Rightarrow> string" where
  "decode b = b"

text \<open>\<^verbatim>\<open>s.split(sep)\<close> for a one-character separator: never returns the empty list.\<close>

fun py_split :: "char \<Rightarrow> string \<Rightarrow> string list" where
  "py_split sep [] = [[]]"
| "py_split sep (c # cs) =
     (if c = sep then [] # py_split sep cs
      else (case py_split sep cs of
              [] \<Rightarrow> [[c]]
            | x # xs \<Rightarrow> (c # x) # xs))"

section \<open>The world the portal runs in\<close>

text \<open>
  JSON values as \<^verbatim>\<open>json.load\<close> returns them; a \<^verbatim>\<open>dict\<close> is an association
  list in insertion order.
\<close>

datatype json =
    JNull
  | JBool bool
  | JNum int
  | JStr string
  | JArr "json list"
  | JObj "(string \<times> json) list"

text \<open>
  The file \<^verbatim>\<open>hotspot_config.json\<close>. The functions \<^verbatim>\<open>json.dump\<close> and
  \<^verbatim>\<open>json.load\<close> belong to the Python library, not to the portal, so the file is
  described by what \<^verbatim>\<open>json.load\<close> makes of it: it does not exist, it holds the
  text of a JSON value, or it holds text that is not JSON (an empty file, a truncated
  record). \<^verbatim>\<open>json.dump d\<close> leaves the text of \<open>d\<close> in the file. Opening the file
  for writing is taken to succeed (the portal runs as root in its own directory).
\<close>

datatype file_state =
    Absent
  | Json json
  | NotJson

text \<open>
  \<^verbatim>\<open>subprocess.CompletedProcess\<close>, with the two fields the portal reads.
\<close>

record CompletedProcess =
  stdout :: bytes
  stderr :: bytes

text \<open>
  A thread created by \<^verbatim>\<open>threading.Thread(target=hotspot_scanning, args=...)\<close>:
  the closure \<^verbatim>\<open>hotspot_scanning\<close> has captured \<^verbatim>\<open>ssid\<close> and
  \<^verbatim>\<open>password\<close>, and \<open>args\<close> are the positional arguments it will be called with.
\<close>

record thread =
  captured_ssid :: string
  captured_password :: "string option"
  args :: "string list"

text \<open>
  The state of the process and of its surroundings: the wall clock (\<^verbatim>\<open>time.time()\<close>,
  in whole time units), the commands run so far with the time each started and
  finished, the configuration file, and the threads started so far, each with what
  the configuration file held at the moment it was started.
\<close>

record world =
  clock :: nat
  ran :: "(nat \<times> nat \<times> string list) list"
  config_file :: file_state
  threads :: "(thread \<times> file_state) list"

text \<open>
  The external tool \<^verbatim>\<open>nmcli\<close>: what the \<open>n\<close>-th command run by the process does,
  given its argument list: how long it takes, and whether \<^verbatim>\<open>subprocess.run\<close>
  raises or returns a completed process.
\<close>

type_synonym tool = "nat \<Rightarrow> string list \<Rightarrow> nat \<times> (error + CompletedProcess)"

definition subprocess_run ::
  "tool \<Rightarrow> string list \<Rightarrow> world \<Rightarrow> (error + CompletedProcess) \<times> world" where
  "subprocess_run nmcli cmd w =
     (let (d, r) = nmcli (length (ran w)) cmd
      in (r, w\<lparr>clock := clock w + d, ran := ran w @ [(clock w, clock w + d, cmd)]\<rparr>))"

definition sleep :: "nat \<Rightarrow> world \<Rightarrow> world" where
  "sleep n w = w\<lparr>clock := clock w + n\<rparr>"

section \<open>ConfigStore: \<^verbatim>\<open>load_hotspot_config\<close> and \<^verbatim>\<open>save_hotspot_config\<close>\<close>

text \<open>\<^verbatim>\<open>open(config_file, "r")\<close>.\<close>

definition open_read :: "world \<Rightarrow> error + file_state" where
  "open_read w = (case config_file w of Absent \<Rightarrow> Inl FileNotFoundError | f \<Rightarrow> Inr f)"

text \<open>\<^verbatim>\<open>json.load(f)\<close> on an open file.\<close>

fun json_load :: "file_state \<Rightarrow> error + json" where
  "json_load (Json v) = Inr v"
| "json_load NotJson = Inl JSONDecodeError"
| "json_load Absent = Inl FileNotFoundError"

text \<open>
  \<^verbatim>\<open>load_hotspot_config\<close>: only \<^verbatim>\<open>FileNotFoundError\<close> is caught, and answered
  with the empty dict.
\<close>

definition load_hotspot_config :: "world \<Rightarrow> error + json" where
  "load_hotspot_config w =
     (case (case open_read w of Inl e \<Rightarrow> Inl e | Inr f \<Rightarrow> json_load f) of
        Inl FileNotFoundError \<Rightarrow> Inr (JObj [])
      | Inl e \<Rightarrow> Inl e
      | Inr v \<Rightarrow> Inr v)"

definition save_hotspot_config :: "string \<Rightarrow> string option \<Rightarrow> world \<Rightarrow> world" where
  "save_hotspot_config ssid password w =
     (let config =
        (case password of
           None \<Rightarrow> [(''ssid'', JStr ssid)]
         | Some p \<Rightarrow>
             if truthy password then [(''ssid'', JStr ssid), (''password'', JStr p)]
             else [(''ssid'', JStr ssid)])
      in w\<lparr>config_file := Json (JObj config)\<rparr>)"

section \<open>One connection attempt: \<^verbatim>\<open>attempt_connect_hotspot\<close>\<close>

definition connection_command :: "string \<Rightarrow> string option \<Rightarrow> string list" where
  "connection_command ssid password =
     [''nmcli'', ''--colors'', ''no'', ''device'', ''wifi'', ''connect'', ssid] @
     (case password of
        None \<Rightarrow> []
      | Some p \<Rightarrow> if truthy password \<and> length p > 0 then [''password'', p] else [])"

text \<open>The text \<^verbatim>\<open>attempt_connect_hotspot\<close> returns for a completed process.\<close>

definition result_text :: "CompletedProcess \<Rightarrow> string" where
  "result_text result =
     (if stderr result \<noteq> [] then ''Error: '' @ decode (stderr result)
      else if stdout result \<noteq> [] then ''Success: '' @ decode (stdout result)
      else ''Unknown error.'')"

definition attempt_connect_hotspot ::
  "tool \<Rightarrow> string \<Rightarrow> string option \<Rightarrow> world \<Rightarrow> (error + string) \<times> world" where
  "attempt_connect_hotspot nmcli ssid password w =
     (case subprocess_run nmcli (connection_command ssid password) w of
        (Inl e, w') \<Rightarrow> (Inl e, w')
      | (Inr result, w') \<Rightarrow> (Inr (result_text result), w'))"

section \<open>The retry loop: \<^verbatim>\<open>hotspot_scanning\<close>\<close>

text \<open>
  The closure defined inside \<^verbatim>\<open>submit\<close>, which takes no parameter and reads
  \<^verbatim>\<open>ssid\<close> and \<^verbatim>\<open>password\<close> from the enclosing call. The loop tests the clock
  at its head only, runs one attempt, leaves as soon as the text returned by
  \<^verbatim>\<open>attempt_connect_hotspot\<close> contains \<^verbatim>\<open>Success\<close>, and sleeps 5 time units
  otherwise. An exception of the attempt ends the loop (and the thread). What
  \<^verbatim>\<open>print\<close> writes is not kept.
\<close>

function hotspot_scanning_loop ::
  "tool \<Rightarrow> string \<Rightarrow> string option \<Rightarrow> nat \<Rightarrow> world \<Rightarrow> (error + unit) \<times> world" where
  "hotspot_scanning_loop nmcli ssid password end_time w =
     (if clock w < end_time then
        (case attempt_connect_hotspot nmcli ssid password w of
           (Inl e, w') \<Rightarrow> (Inl e, w')
         | (Inr result, w') \<Rightarrow>
             if py_in ''Success'' result then (Inr (), w')
             else hotspot_scanning_loop nmcli ssid password end_time (sleep 5 w'))
      else (Inr (), w))"
  by pat_completeness auto
termination
proof (relation "measure (\<lambda>(nmcli, ssid, password, end_time, w). end_time - clock w)")
  show "wf (measure (\<lambda>(nmcli, ssid, password, end_time, w). end_time - clock w))"
    by simp
next
  fix nmcli :: tool and ssid password end_time and w w' :: world
    and x :: "error + string" and result
  assume running: "clock w < end_time"
    and attempt: "(x, w') = attempt_connect_hotspot nmcli ssid password w"
  from attempt have "clock w \<le> clock w'"
    by (auto simp: attempt_connect_hotspot_def subprocess_run_def
          split: prod.splits sum.splits if_splits)
  with running
  show "((nmcli, ssid, password, end_time, sleep 5 w'), (nmcli, ssid, password, end_time, w))
          \<in> measure (\<lambda>(nmcli, ssid, password, end_time, w). end_time - clock w)"
    by (simp add: sleep_def)
qed

declare hotspot_scanning_loop.simps [simp del]

definition hotspot_scanning ::
  "tool \<Rightarrow> string \<Rightarrow> string option \<Rightarrow> world \<Rightarrow> (error + unit) \<times> world" where
  "hotspot_scanning nmcli ssid password w =
     hotspot_scanning_loop nmcli ssid password (clock w + 120) w"

text \<open>
  \<^verbatim>\<open>Thread(...).start()\<close> adds a thread to the process; nothing in the portal joins,
  cancels or lists threads. When the thread runs, it calls its target with its
  positional arguments; \<^verbatim>\<open>hotspot_scanning\<close> takes none.
\<close>

definition thread_start :: "thread \<Rightarrow> world \<Rightarrow> world" where
  "thread_start t w = w\<lparr>threads := threads w @ [(t, config_file w)]\<rparr>"

definition thread_run :: "tool \<Rightarrow> thread \<Rightarrow> world \<Rightarrow> (error + unit) \<times> world" where
  "thread_run nmcli t w =
     (if args t = [] then hotspot_scanning nmcli (captured_ssid t) (captured_password t) w
      else (Inl TypeError, w))"

section \<open>StatusMonitor: \<^verbatim>\<open>get_network_status\<close>\<close>

definition WIFI_DEVICE :: string where
  "WIFI_DEVICE = ''wlan1''"

definition newline :: char where
  "newline = CHR 0x0A"

definition whitespace :: "char list" where
  "whitespace = [CHR 0x09, CHR 0x0A, CHR 0x0B, CHR 0x0C, CHR 0x0D,
                 CHR 0x1C, CHR 0x1D, CHR 0x1E, CHR 0x1F, CHR '' '']"

definition py_strip :: "string \<Rightarrow> string" where
  "py_strip s =
     rev (dropWhile (\<lambda>c. c \<in> set whitespace) (rev (dropWhile (\<lambda>c. c \<in> set whitespace) s)))"

definition status_command :: "string list" where
  "status_command = [''nmcli'', ''-t'', ''-f'', ''device,active,ssid'', ''device'', ''wifi'']"

text \<open>
  Every exception inside is caught; the answer is then \<^verbatim>\<open>("offline", "")\<close>.
\<close>

definition get_network_status :: "tool \<Rightarrow> world \<Rightarrow> (string \<times> string) \<times> world" where
  "get_network_status nmcli w =
     (case subprocess_run nmcli status_command w of
        (Inl e, w') \<Rightarrow> ((''offline'', []), w')
      | (Inr ssid_result, w') \<Rightarrow>
          (case find (prefix (WIFI_DEVICE @ '':yes:''))
                  (py_split newline (py_strip (decode (stdout ssid_result)))) of
             None \<Rightarrow> ((''offline'', []), w')
           | Some line \<Rightarrow>
               (case drop 2 (py_split CHR '':'' line) of
                  [] \<Rightarrow> ((''offline'', []), w')
                | ssid # rest \<Rightarrow> ((''online'', ssid), w'))))"

section \<open>The \<^verbatim>\<open>/submit\<close> route\<close>

text \<open>
  The value bound to \<^verbatim>\<open>result\<close> in \<^verbatim>\<open>submit\<close>: Python is dynamically typed, and
  the code that reads \<^verbatim>\<open>result.stderr\<close> and \<^verbatim>\<open>result.stdout\<close> works on a completed
  process and raises \<^verbatim>\<open>AttributeError\<close> on a \<^verbatim>\<open>str\<close>.
\<close>

datatype pyval =
    PyStr string
  | PyCompleted CompletedProcess

text \<open>
  The \<^verbatim>\<open>response_data\<close> dict after the \<^verbatim>\<open>if\<close>/\<^verbatim>\<open>elif\<close> chain of \<^verbatim>\<open>submit\<close>, for a
  completed process. A dict is an association list in insertion order, and
  \<^verbatim>\<open>d[k] = v\<close> is \<^const>\<open>AList.update\<close>.
\<close>

definition response_for :: "CompletedProcess \<Rightarrow> (string \<times> string) list" where
  "response_for result =
     (let response_data =
            [(''status'', ''error''), (''message'', ''Could not connect. Please try again.'')]
      in
      if stderr result \<noteq> [] then
        (let stderr_message = py_lower (decode (stderr result)) in
         if py_in ''psk: property is invalid'' stderr_message
         then AList.update ''message'' ''Wrong password'' response_data
         else AList.update ''message'' stderr_message response_data)
      else if stdout result \<noteq> [] then
        (let stdout_message = py_lower (decode (stdout result)) in
         if py_in ''successfully activated'' stdout_message
         then AList.update ''message'' (decode (stdout result))
                (AList.update ''status'' ''success'' response_data)
         else if py_in ''connection activation failed'' stdout_message
         then AList.update ''message'' ''Connection activation failed.'' response_data
         else if py_in ''no network with ssid'' stdout_message
         then AList.update ''message''
                ''Could not find a wifi network with the specified SSID.'' response_data
         else if py_in ''no valid secrets'' stdout_message
         then AList.update ''message'' ''Wrong password'' response_data
         else if py_in ''no suitable device found'' stdout_message
         then AList.update ''message'' ''Could not connect. Possible hardware issue.''
                response_data
         else if py_in ''device not ready'' stdout_message
         then AList.update ''message'' ''The device is not ready.'' response_data
         else if py_in ''invalid password'' stdout_message
         then AList.update ''message'' ''Wrong password'' response_data
         else if py_in ''could not be found or the password is incorrect'' stdout_message
         then AList.update ''message''
                ''The password is incorrect or the network could not be found.'' response_data
         else AList.update ''message'' (decode (stdout result)) response_data)
      else response_data)"

definition submit_response :: "pyval \<Rightarrow> error + (string \<times> string) list" where
  "submit_response result =
     (case result of
        PyStr s \<Rightarrow> Inl AttributeError
      | PyCompleted r \<Rightarrow> Inr (response_for r))"

text \<open>
  The part of \<^verbatim>\<open>submit\<close> after the connection attempt: the response is built from
  \<^verbatim>\<open>result\<close>, then the network status is added to it.
\<close>

definition submit_reply ::
  "tool \<Rightarrow> pyval \<Rightarrow> world \<Rightarrow> (error + (string \<times> string) list) \<times> world" where
  "submit_reply nmcli result w =
     (case submit_response result of
        Inl e \<Rightarrow> (Inl e, w)
      | Inr response_data \<Rightarrow>
          (case get_network_status nmcli w of
             ((internet_status, ssid), w') \<Rightarrow>
               (Inr (AList.update ''ssid'' ssid
                      (AList.update ''internet_status'' internet_status response_data)), w')))"

definition info_message :: "string \<Rightarrow> string" where
  "info_message ssid =
     ''Attempting to connect to the '' @ ssid @
     '' network. If you are using a hotspot, go to your hotspot settings page and leave it open so it can connect. This could take up to 2 minutes.''"

text \<open>
  \<^verbatim>\<open>submit\<close>. The form is a map; \<^verbatim>\<open>request.form["ssid"]\<close> raises on a missing key
  and \<^verbatim>\<open>request.form.get("manual_connect")\<close> does not. A thread is started with
  \<^verbatim>\<open>args=(ssid, password)\<close>. In the other branch \<^verbatim>\<open>result\<close> is the \<^verbatim>\<open>str\<close> that
  \<^verbatim>\<open>attempt_connect_hotspot\<close> returns.
\<close>

definition submit ::
  "tool \<Rightarrow> (string \<rightharpoonup> string) \<Rightarrow> world \<Rightarrow> (error + (string \<times> string) list) \<times> world" where
  "submit nmcli form w =
     (case form ''ssid'' of
        None \<Rightarrow> (Inl BadRequestKeyError, w)
      | Some ssid \<Rightarrow>
          (case form ''password'' of
             None \<Rightarrow> (Inl BadRequestKeyError, w)
           | Some password \<Rightarrow>
               (let manual_connect = form ''manual_connect'' in
                if truthy manual_connect then
                  (let w1 = save_hotspot_config ssid (Some password) w;
                       w2 = thread_start
                              \<lparr>captured_ssid = ssid, captured_password = Some password,
                               args = [ssid, password]\<rparr> w1
                   in (Inr [(''status'', ''info''), (''message'', info_message ssid)], w2))
                else
                  (case attempt_connect_hotspot nmcli ssid (Some password) w of
                     (Inl e, w1) \<Rightarrow> (Inl e, w1)
                   | (Inr result, w1) \<Rightarrow> submit_reply nmcli (PyStr result) w1))))"

section \<open>The network list of the \<^verbatim>\<open>/\<close> route\<close>

text \<open>
  The lines of the scan output, and the list comprehension and
  \<^verbatim>\<open>list(set(filter(None, ...)))\<close> of \<^verbatim>\<open>index\<close>. The order of a Python set is not
  fixed, so the result is a set.
\<close>

definition unique_ssids_list :: "string list \<Rightarrow> string set" where
  "unique_ssids_list ssids_list =
     set (filter (\<lambda>s. s \<noteq> [])
           (map (drop 5) (filter (\<lambda>ssid. \<not> py_in ''PoetryCameraSetup'' ssid) ssids_list)))"

definition index_ssids :: "bytes \<Rightarrow> string set" where
  "index_ssids result = unique_ssids_list (py_split newline (decode result))"

section \<open>The process\<close>

text \<open>
  A started thread makes an attempt when running it runs a command. The sessions that
  are retrying are the started threads that make an attempt.
\<close>

definition makes_attempt :: "tool \<Rightarrow> thread \<Rightarrow> world \<Rightarrow> bool" where
  "makes_attempt nmcli t w = (ran (snd (thread_run nmcli t w)) \<noteq> ran w)"



section \<open>The classification table of the specification\<close>

text \<open>
  The outcome of one attempt as the specification names it.
\<close>

datatype failure_kind =
    WrongPassword
  | ActivationFailed
  | NetworkNotFound
  | NetworkNotFoundOrWrongPassword
  | DeviceUnavailable
  | DeviceNotReady
  | Unclassified
  | Unknown

datatype ConnectionOutcome =
    Success string
  | Failure failure_kind string

text \<open>Case-insensitive search for a lower-case pattern.\<close>

definition contains_ci :: "string \<Rightarrow> string \<Rightarrow> bool" where
  "contains_ci pat txt = py_in pat (py_lower txt)"

definition stdout_failure_patterns :: "(string \<times> failure_kind) list" where
  "stdout_failure_patterns =
     [(''connection activation failed'', ActivationFailed),
      (''no network with ssid'', NetworkNotFound),
      (''no valid secrets'', WrongPassword),
      (''no suitable device found'', DeviceUnavailable),
      (''device not ready'', DeviceNotReady),
      (''invalid password'', WrongPassword),
      (''could not be found or the password is incorrect'', NetworkNotFoundOrWrongPassword)]"

definition first_stdout_failure :: "string \<Rightarrow> failure_kind option" where
  "first_stdout_failure out =
     map_option snd (find (\<lambda>rule. contains_ci (fst rule) out) stdout_failure_patterns)"

text \<open>
  The priority table as the specification words it: twelve rules over both texts, the
  first match wins.
\<close>

definition classify_table :: "string \<Rightarrow> string \<Rightarrow> ConnectionOutcome" where
  "classify_table out err =
     (if contains_ci ''psk: property is invalid'' err then Failure WrongPassword err
      else if contains_ci ''successfully activated'' out then Success out
      else (case first_stdout_failure out of
              Some kind \<Rightarrow> Failure kind out
            | None \<Rightarrow>
                if err \<noteq> [] then Failure Unclassified err
                else if out \<noteq> [] then Failure Unclassified out
                else Failure Unknown []))"

section \<open>Sample worlds and tools\<close>

definition initial_world :: world where
  "initial_world = \<lparr>clock = 0, ran = [], config_file = Absent, threads = []\<rparr>"

text \<open>A tool that takes \<open>d\<close> time units and prints the same two texts at every call.\<close>

definition always :: "nat \<Rightarrow> bytes \<Rightarrow> bytes \<Rightarrow> tool" where
  "always d out err = (\<lambda>n cmd. (d, Inr \<lparr>stdout = out, stderr = err\<rparr>))"

text \<open>Each entry of a log of commands starts \<open>gap\<close> time units after the one before it ended.\<close>

fun spaced :: "nat \<Rightarrow> (nat \<times> nat \<times> string list) list \<Rightarrow> bool" where
  "spaced gap (a # b # rest) = (fst b = fst (snd a) + gap \<and> spaced gap (b # rest))"
| "spaced gap rest = True"

section \<open>Properties\<close>

text \<open>
  C10. An empty-string credential is treated like an absent one: saving with the
  password \<^verbatim>\<open>""\<close> stores a record with the single field \<^verbatim>\<open>ssid\<close>, exactly as saving
  with no password does; the connect command built for the password \<^verbatim>\<open>""\<close> has no
  password argument and is the command built for no password; so a connection attempt
  behaves the same for both.
\<close>

theorem empty_password_is_absent:
  "save_hotspot_config ssid (Some []) w = save_hotspot_config ssid None w
   \<and> config_file (save_hotspot_config ssid (Some []) w) = Json (JObj [(''ssid'', JStr ssid)])
   \<and> connection_command ssid (Some []) = connection_command ssid None
   \<and> connection_command ssid (Some []) =
       [''nmcli'', ''--colors'', ''no'', ''device'', ''wifi'', ''connect'', ssid]
   \<and> attempt_connect_hotspot nmcli ssid (Some []) w = attempt_connect_hotspot nmcli ssid None w"
  by (simp add: save_hotspot_config_def connection_command_def attempt_connect_hotspot_def)

text \<open>
  C9. Loading from a store that was never saved to gives the empty dict (the portal's
  "not found"). Saving an identity with a non-empty credential and loading gives exactly
  the record of the two. Saving the same input twice leaves what saving it once leaves,
  and a save replaces whatever an earlier save stored.
\<close>

theorem save_load_roundtrip:
  assumes "password \<noteq> []"
  shows "load_hotspot_config (w\<lparr>config_file := Absent\<rparr>) = Inr (JObj [])
    \<and> load_hotspot_config (save_hotspot_config ssid (Some password) w) =
          Inr (JObj [(''ssid'', JStr ssid), (''password'', JStr password)])
    \<and> save_hotspot_config ssid (Some password) (save_hotspot_config ssid (Some password) w) =
          save_hotspot_config ssid (Some password) w
    \<and> load_hotspot_config
          (save_hotspot_config ssid (Some password) (save_hotspot_config ssid (Some password) w)) =
          Inr (JObj [(''ssid'', JStr ssid), (''password'', JStr password)])
    \<and> save_hotspot_config ssid (Some password) (save_hotspot_config ssid' password' w) =
          save_hotspot_config ssid (Some password) w"
  using assms
  by (simp add: load_hotspot_config_def open_read_def save_hotspot_config_def)

theorem save_load_roundtrip_witness:
  "''secret'' \<noteq> []
   \<and> load_hotspot_config initial_world = Inr (JObj [])
   \<and> load_hotspot_config (save_hotspot_config ''HomeNet'' (Some ''secret'') initial_world) =
         Inr (JObj [(''ssid'', JStr ''HomeNet''), (''password'', JStr ''secret'')])
   \<and> load_hotspot_config
         (save_hotspot_config ''HomeNet'' (Some ''secret'')
           (save_hotspot_config ''HomeNet'' (Some ''secret'') initial_world)) =
         Inr (JObj [(''ssid'', JStr ''HomeNet''), (''password'', JStr ''secret'')])"
proof -
  have ne: "''secret'' \<noteq> []"
    by simp
  have absent: "initial_world\<lparr>config_file := Absent\<rparr> = initial_world"
    by (simp add: initial_world_def)
  from save_load_roundtrip [OF ne, of initial_world "''HomeNet''"] ne absent
  show ?thesis
    by simp
qed

text \<open>
  C4. \<^verbatim>\<open>load_hotspot_config\<close> returns the stored value when the file holds JSON, and
  the empty dict when there is no file; when the file holds text that is not JSON it
  raises the decoding error of \<^verbatim>\<open>json.load\<close>, which it does not catch.
\<close>

theorem load_hotspot_config_cases:
  "load_hotspot_config w =
     (case config_file w of
        Absent \<Rightarrow> Inr (JObj [])
      | Json v \<Rightarrow> Inr v
      | NotJson \<Rightarrow> Inl JSONDecodeError)"
  by (simp add: load_hotspot_config_def open_read_def split: file_state.splits)

theorem load_corrupt_counterexample:
  "load_hotspot_config (initial_world\<lparr>config_file := NotJson\<rparr>) = Inl JSONDecodeError
   \<and> load_hotspot_config (initial_world\<lparr>config_file := NotJson\<rparr>) \<noteq>
       load_hotspot_config (initial_world\<lparr>config_file := Absent\<rparr>)"
  by (simp add: load_hotspot_config_def open_read_def)

subsection \<open>The immediate path of \<^verbatim>\<open>submit\<close>\<close>

lemma submit_reply_str: "submit_reply nmcli (PyStr s) w = (Inl AttributeError, w)"
  by (simp add: submit_reply_def submit_response_def)

lemma attempt_connect_hotspot_run:
  "nmcli (length (ran w)) (connection_command ssid password) = (d, r) \<Longrightarrow>
   attempt_connect_hotspot nmcli ssid password w =
     (map_sum id result_text r,
      w\<lparr>clock := clock w + d,
        ran := ran w @ [(clock w, clock w + d, connection_command ssid password)]\<rparr>)"
  by (cases r) (simp_all add: attempt_connect_hotspot_def subprocess_run_def)

text \<open>
  C2. A \<^verbatim>\<open>submit\<close> without \<^verbatim>\<open>manual_connect\<close> never returns a response: it raises.
  When the form has both fields and the tool returns, \<^verbatim>\<open>attempt_connect_hotspot\<close>
  hands back a \<^verbatim>\<open>str\<close>, and reading \<^verbatim>\<open>result.stderr\<close> raises \<^verbatim>\<open>AttributeError\<close>.
\<close>

theorem immediate_submit_raises:
  assumes "\<not> truthy (form ''manual_connect'')"
  shows "(\<exists>e. fst (submit nmcli form w) = Inl e)
    \<and> (\<forall>ssid password d r.
          form ''ssid'' = Some ssid \<and> form ''password'' = Some password
          \<and> nmcli (length (ran w)) (connection_command ssid (Some password)) = (d, Inr r)
          \<longrightarrow> fst (submit nmcli form w) = Inl AttributeError)"
  using assms
  by (auto simp: submit_def submit_reply_str attempt_connect_hotspot_def subprocess_run_def
        split: option.splits prod.splits sum.splits)

theorem immediate_submit_raises_witness:
  "\<not> truthy ([''ssid'' \<mapsto> ''HomeNet'', ''password'' \<mapsto> ''secret''] ''manual_connect'')
   \<and> fst (submit (always 3 ''Connection successfully activated'' [])
             [''ssid'' \<mapsto> ''HomeNet'', ''password'' \<mapsto> ''secret''] initial_world) =
       Inl AttributeError"
proof -
  have h: "\<not> truthy ([''ssid'' \<mapsto> ''HomeNet'', ''password'' \<mapsto> ''secret''] ''manual_connect'')"
    by simp
  have run: "always 3 ''Connection successfully activated'' [] (length (ran initial_world))
       (connection_command ''HomeNet'' (Some ''secret'')) =
     (3, Inr \<lparr>stdout = ''Connection successfully activated'', stderr = []\<rparr>)"
    by (simp add: always_def)
  from immediate_submit_raises
      [of "[''ssid'' \<mapsto> ''HomeNet'', ''password'' \<mapsto> ''secret'']"
          "always 3 ''Connection successfully activated'' []" initial_world] h
  have "\<forall>ssid password d r.
          [''ssid'' \<mapsto> ''HomeNet'', ''password'' \<mapsto> ''secret''] ''ssid'' = Some ssid
          \<and> [''ssid'' \<mapsto> ''HomeNet'', ''password'' \<mapsto> ''secret''] ''password'' = Some password
          \<and> always 3 ''Connection successfully activated'' [] (length (ran initial_world))
                (connection_command ssid (Some password)) = (d, Inr r)
          \<longrightarrow> fst (submit (always 3 ''Connection successfully activated'' [])
                    [''ssid'' \<mapsto> ''HomeNet'', ''password'' \<mapsto> ''secret''] initial_world) =
                Inl AttributeError"
    by blast
  from this [rule_format, of "''HomeNet''" "''secret''" 3
      "\<lparr>stdout = ''Connection successfully activated'', stderr = []\<rparr>"] run h
  show ?thesis
    by simp
qed

lemma submit_immediate_raises_some:
  "\<not> truthy (form ''manual_connect'') \<Longrightarrow> \<exists>e. fst (submit nmcli form w) = Inl e"
  by (auto simp: submit_def submit_reply_str attempt_connect_hotspot_def subprocess_run_def
        split: option.splits prod.splits sum.splits)

text \<open>
  C1. For every pair of texts the tool can print, a \<^verbatim>\<open>submit\<close> without
  \<^verbatim>\<open>manual_connect\<close> raises before the first rule is tried: the classification gives no
  outcome. At the two examples of the specification the table gives a success and a
  wrong password, and \<^verbatim>\<open>submit\<close> raises \<^verbatim>\<open>AttributeError\<close>.
\<close>

theorem classification_is_never_reached:
  "(\<exists>e. fst (submit (always d out err) [''ssid'' \<mapsto> ssid, ''password'' \<mapsto> password] w) =
          Inl e)
   \<and> classify_table ''Connection successfully activated'' [] =
       Success ''Connection successfully activated''
   \<and> fst (submit (always 3 ''Connection successfully activated'' [])
            [''ssid'' \<mapsto> ''HomeNet'', ''password'' \<mapsto> ''secret''] initial_world) =
       Inl AttributeError
   \<and> classify_table [] ''Error: 802-11-wireless-security.psk: property is invalid'' =
       Failure WrongPassword ''Error: 802-11-wireless-security.psk: property is invalid''
   \<and> fst (submit (always 3 [] ''Error: 802-11-wireless-security.psk: property is invalid'')
            [''ssid'' \<mapsto> ''HomeNet'', ''password'' \<mapsto> ''wrong''] initial_world) =
       Inl AttributeError"
proof -
  have raises: "\<exists>e. fst (submit (always d out err)
      [''ssid'' \<mapsto> ssid, ''password'' \<mapsto> password] w) = Inl e"
    by (rule submit_immediate_raises_some) simp
  have table: "classify_table ''Connection successfully activated'' [] =
       Success ''Connection successfully activated''"
    "classify_table [] ''Error: 802-11-wireless-security.psk: property is invalid'' =
       Failure WrongPassword ''Error: 802-11-wireless-security.psk: property is invalid''"
    by code_simp+
  have run: "fst (submit (always 3 ''Connection successfully activated'' [])
            [''ssid'' \<mapsto> ''HomeNet'', ''password'' \<mapsto> ''secret''] initial_world) =
       Inl AttributeError"
    "fst (submit (always 3 [] ''Error: 802-11-wireless-security.psk: property is invalid'')
            [''ssid'' \<mapsto> ''HomeNet'', ''password'' \<mapsto> ''wrong''] initial_world) =
       Inl AttributeError"
    by (simp_all add: submit_def submit_reply_str attempt_connect_hotspot_def
          subprocess_run_def always_def)
  from raises table run show ?thesis
    by blast
qed

text \<open>The chain of \<^verbatim>\<open>submit\<close>, on a completed process, reads the error text first.\<close>

lemma response_for_reads_stderr_first:
  "response_for \<lparr>stdout = ''Connection successfully activated'',
                 stderr = ''Warning: nmcli and NetworkManager versions differ.''\<rparr> =
     [(''status'', ''error''),
      (''message'', ''warning: nmcli and networkmanager versions differ.'')]
   \<and> response_for \<lparr>stdout = ''Connection successfully activated'', stderr = []\<rparr> =
     [(''status'', ''success''), (''message'', ''Connection successfully activated'')]"
  by code_simp

subsection \<open>The network list\<close>

lemma py_in_sublist: "py_in p s \<longleftrightarrow> sublist p s"
  by (induction s) (simp_all add: sublist_Cons_right)

lemma py_in_drop: "py_in p (drop n s) \<Longrightarrow> py_in p s"
  unfolding py_in_sublist
  by (meson sublist_drop sublist_order.order.trans)

lemma py_in_refl: "py_in p p"
  by (simp add: py_in_sublist)

lemma unique_ssids_list_iff:
  "n \<in> unique_ssids_list ls \<longleftrightarrow>
     n \<noteq> [] \<and> (\<exists>l \<in> set ls. n = drop 5 l \<and> \<not> py_in ''PoetryCameraSetup'' l)"
  by (auto simp: unique_ssids_list_def)

text \<open>
  C5. A name is listed exactly when it is not empty and is what is left of some scanned
  line, after its first five characters, that does not contain the setup network's name
  anywhere. So the setup network is never listed, nor any name that contains its name;
  the empty name is never listed; a repeated line adds nothing; and the example list
  gives the single name \<^verbatim>\<open>HomeNet\<close>.
\<close>

theorem scan_list_filter:
  "(n \<in> unique_ssids_list ls \<longleftrightarrow>
       n \<noteq> [] \<and> (\<exists>l \<in> set ls. n = drop 5 l \<and> \<not> py_in ''PoetryCameraSetup'' l))
   \<and> ''PoetryCameraSetup'' \<notin> unique_ssids_list ls
   \<and> \<not> (\<exists>m \<in> unique_ssids_list ls. py_in ''PoetryCameraSetup'' m)
   \<and> [] \<notin> unique_ssids_list ls
   \<and> unique_ssids_list (l # l # ls) = unique_ssids_list (l # ls)
   \<and> unique_ssids_list (ls @ ls) = unique_ssids_list ls
   \<and> unique_ssids_list
         [''SSID:HomeNet'', ''SSID:PoetryCameraSetup'', ''SSID:HomeNet'', ''SSID:''] =
       {''HomeNet''}"
proof -
  have part: "\<not> (\<exists>m \<in> unique_ssids_list ls. py_in ''PoetryCameraSetup'' m)"
    using py_in_drop by (auto simp: unique_ssids_list_iff)
  then have name: "''PoetryCameraSetup'' \<notin> unique_ssids_list ls"
    using py_in_refl by blast
  have example: "unique_ssids_list
         [''SSID:HomeNet'', ''SSID:PoetryCameraSetup'', ''SSID:HomeNet'', ''SSID:''] =
       {''HomeNet''}"
    by code_simp
  have dup: "unique_ssids_list (l # l # ls) = unique_ssids_list (l # ls)"
    "unique_ssids_list (ls @ ls) = unique_ssids_list ls"
    by (auto simp: unique_ssids_list_def)
  have empty: "[] \<notin> unique_ssids_list ls"
    by (simp add: unique_ssids_list_iff)
  from unique_ssids_list_iff part name example dup empty show ?thesis
    by blast
qed

text \<open>
  A neighbouring network whose name only starts with the setup network's name is a
  different network, and is dropped from the list all the same.
\<close>

theorem scan_list_substring_counterexample:
  "''PoetryCameraSetupGuest'' \<noteq> ''PoetryCameraSetup''
   \<and> ''PoetryCameraSetupGuest'' \<notin>
       unique_ssids_list [''SSID:HomeNet'', ''SSID:PoetryCameraSetupGuest'']
   \<and> unique_ssids_list [''SSID:HomeNet'', ''SSID:PoetryCameraSetupGuest''] = {''HomeNet''}"
  by code_simp

text \<open>A name made of spaces is not empty, and is kept.\<close>

lemma blank_name_is_kept: "unique_ssids_list [''SSID:   ''] = {''   ''}"
  by code_simp

text \<open>The same list, from the bytes the scan prints.\<close>

lemma index_ssids_example:
  "index_ssids (''SSID:HomeNet'' @ [newline] @ ''SSID:PoetryCameraSetup'' @ [newline] @
      ''SSID:HomeNet'' @ [newline]) = {''HomeNet''}"
  by code_simp

subsection \<open>The two modes of \<^verbatim>\<open>submit\<close>\<close>

lemma submit_background:
  assumes "form ''ssid'' = Some ssid" and "form ''password'' = Some password"
    and "truthy (form ''manual_connect'')"
  shows "submit nmcli form w =
    (Inr [(''status'', ''info''), (''message'', info_message ssid)],
     thread_start \<lparr>captured_ssid = ssid, captured_password = Some password,
                   args = [ssid, password]\<rparr>
       (save_hotspot_config ssid (Some password) w))"
  using assms by (simp add: submit_def)

lemma attempt_connect_hotspot_frame:
  "config_file (snd (attempt_connect_hotspot nmcli ssid password w)) = config_file w
   \<and> threads (snd (attempt_connect_hotspot nmcli ssid password w)) = threads w"
  by (cases "nmcli (length (ran w)) (connection_command ssid password)")
    (simp add: attempt_connect_hotspot_run)

lemma submit_immediate_frame:
  assumes "\<not> truthy (form ''manual_connect'')"
  shows "config_file (snd (submit nmcli form w)) = config_file w
    \<and> threads (snd (submit nmcli form w)) = threads w"
proof (cases "form ''ssid''")
  case None
  then show ?thesis by (simp add: submit_def)
next
  case ssid: (Some ssid)
  show ?thesis
  proof (cases "form ''password''")
    case None
    with ssid show ?thesis by (simp add: submit_def)
  next
    case (Some password)
    obtain x w1 where a: "attempt_connect_hotspot nmcli ssid (Some password) w = (x, w1)"
      by (cases "attempt_connect_hotspot nmcli ssid (Some password) w")
    with attempt_connect_hotspot_frame [of nmcli ssid "Some password" w]
    have "config_file w1 = config_file w \<and> threads w1 = threads w"
      by simp
    with ssid Some assms a show ?thesis
      by (cases x) (simp_all add: submit_def submit_reply_str)
  qed
qed

lemma response_for_shape:
  "\<exists>st msg. response_for r = [(''status'', st), (''message'', msg)]
     \<and> (st = ''success'' \<or> st = ''error'')"
  by (simp add: response_for_def Let_def)

lemma submit_reply_completed:
  "\<exists>p w'. submit_reply nmcli (PyCompleted r) w = (Inr p, w')
     \<and> map fst p = [''status'', ''message'', ''internet_status'', ''ssid'']
     \<and> (map_of p ''status'' = Some ''success'' \<or> map_of p ''status'' = Some ''error'')"
proof -
  obtain st msg where shape: "response_for r = [(''status'', st), (''message'', msg)]"
    and st: "st = ''success'' \<or> st = ''error''"
    using response_for_shape by blast
  obtain i s w' where status: "get_network_status nmcli w = ((i, s), w')"
    by (metis surj_pair)
  from shape status have "submit_reply nmcli (PyCompleted r) w =
      (Inr [(''status'', st), (''message'', msg), (''internet_status'', i), (''ssid'', s)], w')"
    by (simp add: submit_reply_def submit_response_def)
  with st show ?thesis
    by auto
qed

text \<open>The status read from the lines the tool prints, one line for each network seen.\<close>

lemma get_network_status_example:
  "fst (get_network_status
         (always 1 (''wlan0:no:CafeNet'' @ [newline] @ ''wlan1:yes:HomeNet'' @ [newline]) [])
         initial_world) = (''online'', ''HomeNet'')
   \<and> fst (get_network_status (always 1 (''wlan1:no:HomeNet'' @ [newline]) []) initial_world) =
       (''offline'', [])"
  by code_simp

text \<open>
  When the thread that \<^verbatim>\<open>submit\<close> starts runs, the call of its target with two
  arguments raises, and no attempt is made.
\<close>

lemma started_thread_raises:
  "thread_run nmcli \<lparr>captured_ssid = ssid, captured_password = Some password,
                     args = [ssid, password]\<rparr> w = (Inl TypeError, w)"
  by (simp add: thread_run_def)

text \<open>
  C7. With \<^verbatim>\<open>manual_connect\<close> the reply is the status \<^verbatim>\<open>info\<close> and a message that
  names the network and says what to do, and nothing else. The payload that the
  other mode builds from a completed process has the fields \<^verbatim>\<open>status\<close> (\<^verbatim>\<open>success\<close>
  or \<^verbatim>\<open>error\<close>), \<^verbatim>\<open>message\<close>, \<^verbatim>\<open>internet_status\<close> and \<^verbatim>\<open>ssid\<close>.
\<close>

theorem submit_payload_fields:
  assumes "form ''ssid'' = Some ssid" and "form ''password'' = Some password"
    and "truthy (form ''manual_connect'')"
  shows "fst (submit nmcli form w) =
      Inr [(''status'', ''info''), (''message'', info_message ssid)]
    \<and> (\<exists>p w'. submit_reply nmcli (PyCompleted r) w = (Inr p, w')
          \<and> map fst p = [''status'', ''message'', ''internet_status'', ''ssid'']
          \<and> (map_of p ''status'' = Some ''success'' \<or> map_of p ''status'' = Some ''error''))"
  using submit_background [OF assms, of nmcli w] submit_reply_completed [of nmcli r w]
  by simp

theorem submit_payload_fields_witness:
  "fst (submit (always 1 ''Connection successfully activated'' [])
         [''ssid'' \<mapsto> ''HomeNet'', ''password'' \<mapsto> [], ''manual_connect'' \<mapsto> ''1'']
         initial_world) =
     Inr [(''status'', ''info''), (''message'', info_message ''HomeNet'')]
   \<and> (\<exists>p w'. submit_reply (always 1 ''Connection successfully activated'' [])
          (PyCompleted \<lparr>stdout = ''Connection successfully activated'', stderr = []\<rparr>)
          initial_world = (Inr p, w')
        \<and> map fst p = [''status'', ''message'', ''internet_status'', ''ssid'']
        \<and> (map_of p ''status'' = Some ''success'' \<or> map_of p ''status'' = Some ''error''))"
  using submit_payload_fields
    [of "[''ssid'' \<mapsto> ''HomeNet'', ''password'' \<mapsto> [], ''manual_connect'' \<mapsto> ''1'']"
        "''HomeNet''" "[]" "always 1 ''Connection successfully activated'' []" initial_world
        "\<lparr>stdout = ''Connection successfully activated'', stderr = []\<rparr>"]
  by simp

text \<open>The \<^verbatim>\<open>info\<close> reply has neither an identity nor a connectivity field.\<close>

theorem background_reply_fields_counterexample:
  "fst (submit (always 1 ''Connection successfully activated'' [])
         [''ssid'' \<mapsto> ''HomeNet'', ''password'' \<mapsto> ''secret'', ''manual_connect'' \<mapsto> ''on'']
         initial_world) =
     Inr [(''status'', ''info''), (''message'', info_message ''HomeNet'')]
   \<and> map fst [(''status'', ''info''), (''message'', info_message ''HomeNet'')] =
       [''status'', ''message'']
   \<and> map_of [(''status'', ''info''), (''message'', info_message ''HomeNet'')] ''ssid'' = None
   \<and> map_of [(''status'', ''info''), (''message'', info_message ''HomeNet'')]
         ''internet_status'' = None"
  by (simp add: submit_def)

subsection \<open>Background sessions\<close>

text \<open>
  C3. A \<^verbatim>\<open>submit\<close> with \<^verbatim>\<open>manual_connect\<close> starts one thread, with two arguments
  for a target that takes none. Whenever and with whatever tool that thread runs, the
  call raises \<^verbatim>\<open>TypeError\<close> and no command is run: the session makes no attempt, at
  time 0 or later.
\<close>

theorem background_session_makes_no_attempt:
  assumes "form ''ssid'' = Some ssid" and "form ''password'' = Some password"
    and "truthy (form ''manual_connect'')"
  shows "map fst (threads (snd (submit nmcli form w))) =
      map fst (threads w) @
        [\<lparr>captured_ssid = ssid, captured_password = Some password, args = [ssid, password]\<rparr>]
    \<and> thread_run nmcli'
        \<lparr>captured_ssid = ssid, captured_password = Some password, args = [ssid, password]\<rparr> w' =
      (Inl TypeError, w')
    \<and> ran (snd (thread_run nmcli'
        \<lparr>captured_ssid = ssid, captured_password = Some password, args = [ssid, password]\<rparr>
        w')) = ran w'
    \<and> \<not> makes_attempt nmcli'
        \<lparr>captured_ssid = ssid, captured_password = Some password, args = [ssid, password]\<rparr> w'"
  using submit_background [OF assms, of nmcli w]
  by (simp add: thread_start_def save_hotspot_config_def thread_run_def makes_attempt_def)

theorem background_session_makes_no_attempt_witness:
  "map fst (threads (snd (submit (always 2 [] ''Error: network not found.'')
       [''ssid'' \<mapsto> ''HomeNet'', ''password'' \<mapsto> ''secret'', ''manual_connect'' \<mapsto> ''on'']
       initial_world))) =
     [\<lparr>captured_ssid = ''HomeNet'', captured_password = Some ''secret'',
       args = [''HomeNet'', ''secret'']\<rparr>]
   \<and> thread_run (always 2 [] ''Error: network not found.'')
       \<lparr>captured_ssid = ''HomeNet'', captured_password = Some ''secret'',
        args = [''HomeNet'', ''secret'']\<rparr>
       (snd (submit (always 2 [] ''Error: network not found.'')
          [''ssid'' \<mapsto> ''HomeNet'', ''password'' \<mapsto> ''secret'', ''manual_connect'' \<mapsto> ''on'']
          initial_world)) =
     (Inl TypeError,
      snd (submit (always 2 [] ''Error: network not found.'')
          [''ssid'' \<mapsto> ''HomeNet'', ''password'' \<mapsto> ''secret'', ''manual_connect'' \<mapsto> ''on'']
          initial_world))
   \<and> ran (snd (thread_run (always 2 [] ''Error: network not found.'')
       \<lparr>captured_ssid = ''HomeNet'', captured_password = Some ''secret'',
        args = [''HomeNet'', ''secret'']\<rparr>
       (snd (submit (always 2 [] ''Error: network not found.'')
          [''ssid'' \<mapsto> ''HomeNet'', ''password'' \<mapsto> ''secret'', ''manual_connect'' \<mapsto> ''on'']
          initial_world)))) = []"
proof -
  let ?form = "[''ssid'' \<mapsto> ''HomeNet'', ''password'' \<mapsto> ''secret'',
                ''manual_connect'' \<mapsto> ''on'']"
  let ?tool = "always 2 [] ''Error: network not found.''"
  have keys: "?form ''ssid'' = Some ''HomeNet''" "?form ''password'' = Some ''secret''"
    "truthy (?form ''manual_connect'')"
    by simp_all
  have before: "threads initial_world = []" "ran initial_world = []"
    by (simp_all add: initial_world_def)
  have log: "ran (snd (submit ?tool ?form initial_world)) = []"
    by (simp add: submit_def thread_start_def save_hotspot_config_def initial_world_def)
  note main = background_session_makes_no_attempt
      [OF keys, of ?tool initial_world ?tool "snd (submit ?tool ?form initial_world)"]
  from main have started: "map fst (threads (snd (submit ?tool ?form initial_world))) =
      map fst (threads initial_world) @
        [\<lparr>captured_ssid = ''HomeNet'', captured_password = Some ''secret'',
          args = [''HomeNet'', ''secret'']\<rparr>]"
    by (rule conjunct1)
  from main have raised: "thread_run ?tool
      \<lparr>captured_ssid = ''HomeNet'', captured_password = Some ''secret'',
       args = [''HomeNet'', ''secret'']\<rparr> (snd (submit ?tool ?form initial_world)) =
      (Inl TypeError, snd (submit ?tool ?form initial_world))"
    by (rule conjunct1 [OF conjunct2])
  from main have quiet: "ran (snd (thread_run ?tool
      \<lparr>captured_ssid = ''HomeNet'', captured_password = Some ''secret'',
       args = [''HomeNet'', ''secret'']\<rparr> (snd (submit ?tool ?form initial_world)))) =
      ran (snd (submit ?tool ?form initial_world))"
    by (rule conjunct1 [OF conjunct2 [OF conjunct2]])
  from started have "map fst (threads (snd (submit ?tool ?form initial_world))) =
      [\<lparr>captured_ssid = ''HomeNet'', captured_password = Some ''secret'',
        args = [''HomeNet'', ''secret'']\<rparr>]"
    by (simp only: before list.map append_Nil)
  moreover from quiet have "ran (snd (thread_run ?tool
      \<lparr>captured_ssid = ''HomeNet'', captured_password = Some ''secret'',
       args = [''HomeNet'', ''secret'']\<rparr> (snd (submit ?tool ?form initial_world)))) = []"
    by (simp only: log)
  ultimately show ?thesis
    using raised by (intro conjI)
qed








text \<open>
  C8. With \<^verbatim>\<open>manual_connect\<close>, \<^verbatim>\<open>submit\<close> starts exactly one thread, and at the moment
  the thread is started the configuration file already holds the record of the identity
  and the credential; the file holds it afterwards too. Without \<^verbatim>\<open>manual_connect\<close>,
  \<^verbatim>\<open>submit\<close> leaves the stored record as it was and starts no thread, and a single
  \<^verbatim>\<open>attempt_connect_hotspot\<close> leaves the record as it was.
\<close>

theorem persistence_by_mode:
  "(form ''ssid'' = Some ssid \<and> form ''password'' = Some password
      \<and> truthy (form ''manual_connect'')
    \<longrightarrow> threads (snd (submit nmcli form w)) =
          threads w @
            [(\<lparr>captured_ssid = ssid, captured_password = Some password,
               args = [ssid, password]\<rparr>,
              Json (JObj ((''ssid'', JStr ssid) #
                          (if password = [] then [] else [(''password'', JStr password)]))))]
        \<and> config_file (snd (submit nmcli form w)) =
          Json (JObj ((''ssid'', JStr ssid) #
                      (if password = [] then [] else [(''password'', JStr password)]))))
   \<and> (\<not> truthy (form ''manual_connect'')
      \<longrightarrow> config_file (snd (submit nmcli form w)) = config_file w
        \<and> threads (snd (submit nmcli form w)) = threads w)
   \<and> config_file (snd (attempt_connect_hotspot nmcli ssid' password' w)) = config_file w"
  using submit_background [of form ssid password nmcli w]
    submit_immediate_frame [of form nmcli w]
    attempt_connect_hotspot_frame [of nmcli ssid' password' w]
  by (simp add: thread_start_def save_hotspot_config_def)

theorem persistence_by_mode_witness:
  "threads (snd (submit (always 4 [] ''Error: network not found.'')
       [''ssid'' \<mapsto> ''HomeNet'', ''password'' \<mapsto> ''secret'', ''manual_connect'' \<mapsto> ''on'']
       (save_hotspot_config ''CafeNet'' (Some ''latte'') initial_world))) =
     [(\<lparr>captured_ssid = ''HomeNet'', captured_password = Some ''secret'',
        args = [''HomeNet'', ''secret'']\<rparr>,
       Json (JObj [(''ssid'', JStr ''HomeNet''), (''password'', JStr ''secret'')]))]
   \<and> config_file (snd (submit (always 4 [] ''Error: network not found.'')
       [''ssid'' \<mapsto> ''HomeNet'', ''password'' \<mapsto> ''secret'', ''manual_connect'' \<mapsto> ''on'']
       (save_hotspot_config ''CafeNet'' (Some ''latte'') initial_world))) =
     Json (JObj [(''ssid'', JStr ''HomeNet''), (''password'', JStr ''secret'')])
   \<and> config_file (snd (submit (always 4 [] ''Error: network not found.'')
       [''ssid'' \<mapsto> ''HomeNet'', ''password'' \<mapsto> ''secret'']
       (save_hotspot_config ''CafeNet'' (Some ''latte'') initial_world))) =
     Json (JObj [(''ssid'', JStr ''CafeNet''), (''password'', JStr ''latte'')])"
proof -
  let ?bg = "[''ssid'' \<mapsto> ''HomeNet'', ''password'' \<mapsto> ''secret'',
              ''manual_connect'' \<mapsto> ''on'']"
  let ?im = "[''ssid'' \<mapsto> ''HomeNet'', ''password'' \<mapsto> ''secret'']"
  let ?tool = "always 4 [] ''Error: network not found.''"
  let ?w = "save_hotspot_config ''CafeNet'' (Some ''latte'') initial_world"
  have background: "?bg ''ssid'' = Some ''HomeNet'' \<and> ?bg ''password'' = Some ''secret''
      \<and> truthy (?bg ''manual_connect'')"
    by simp
  have immediate: "\<not> truthy (?im ''manual_connect'')"
    by simp
  have before: "threads ?w = []"
    "config_file ?w = Json (JObj [(''ssid'', JStr ''CafeNet''), (''password'', JStr ''latte'')])"
    by (simp_all add: save_hotspot_config_def initial_world_def)
  have secret: "(if ''secret'' = [] then [] else [(''password'', JStr ''secret'')]) =
      [(''password'', JStr ''secret'')]"
    by simp
  from persistence_by_mode [of ?bg "''HomeNet''" "''secret''" ?tool ?w "''HomeNet''" None]
    background
  have "threads (snd (submit ?tool ?bg ?w)) =
          threads ?w @
            [(\<lparr>captured_ssid = ''HomeNet'', captured_password = Some ''secret'',
               args = [''HomeNet'', ''secret'']\<rparr>,
              Json (JObj ((''ssid'', JStr ''HomeNet'') #
                   (if ''secret'' = [] then [] else [(''password'', JStr ''secret'')]))))]
        \<and> config_file (snd (submit ?tool ?bg ?w)) =
          Json (JObj ((''ssid'', JStr ''HomeNet'') #
               (if ''secret'' = [] then [] else [(''password'', JStr ''secret'')])))"
    by blast
  then have bg: "threads (snd (submit ?tool ?bg ?w)) =
            [(\<lparr>captured_ssid = ''HomeNet'', captured_password = Some ''secret'',
               args = [''HomeNet'', ''secret'']\<rparr>,
              Json (JObj [(''ssid'', JStr ''HomeNet''), (''password'', JStr ''secret'')]))]
        \<and> config_file (snd (submit ?tool ?bg ?w)) =
          Json (JObj [(''ssid'', JStr ''HomeNet''), (''password'', JStr ''secret'')])"
    by (simp only: before secret append_Nil)
  from persistence_by_mode [of ?im "''HomeNet''" "''secret''" ?tool ?w "''HomeNet''" None]
    immediate
  have "config_file (snd (submit ?tool ?im ?w)) = config_file ?w"
    by blast
  then have im: "config_file (snd (submit ?tool ?im ?w)) =
      Json (JObj [(''ssid'', JStr ''CafeNet''), (''password'', JStr ''latte'')])"
    by (simp only: before)
  from bg im show ?thesis
    by (intro conjI) (erule conjunct1, erule conjunct2, assumption)
qed

text \<open>The order of the two effects can be seen: starting the thread first is another world.\<close>

lemma save_before_start_is_seen:
  "thread_start \<lparr>captured_ssid = ''HomeNet'', captured_password = Some ''secret'',
                 args = [''HomeNet'', ''secret'']\<rparr>
     (save_hotspot_config ''HomeNet'' (Some ''secret'') initial_world) \<noteq>
   save_hotspot_config ''HomeNet'' (Some ''secret'')
     (thread_start \<lparr>captured_ssid = ''HomeNet'', captured_password = Some ''secret'',
                    args = [''HomeNet'', ''secret'']\<rparr> initial_world)"
  by (simp add: thread_start_def save_hotspot_config_def initial_world_def)

subsection \<open>The body of \<^verbatim>\<open>hotspot_scanning\<close>\<close>

text \<open>
  What the loop does when it is called with no argument. No run of the portal calls it
  so (see C3); the lemmas describe the function as it is written.
\<close>

lemma loop_stop:
  "\<not> clock w < end_time \<Longrightarrow>
   hotspot_scanning_loop nmcli ssid password end_time w = (Inr (), w)"
  by (subst hotspot_scanning_loop.simps) simp

lemma loop_raise:
  "clock w < end_time \<Longrightarrow> attempt_connect_hotspot nmcli ssid password w = (Inl e, w1) \<Longrightarrow>
   hotspot_scanning_loop nmcli ssid password end_time w = (Inl e, w1)"
  by (subst hotspot_scanning_loop.simps) simp

lemma loop_success:
  "clock w < end_time \<Longrightarrow> attempt_connect_hotspot nmcli ssid password w = (Inr text, w1) \<Longrightarrow>
   py_in ''Success'' text \<Longrightarrow>
   hotspot_scanning_loop nmcli ssid password end_time w = (Inr (), w1)"
  by (subst hotspot_scanning_loop.simps) simp

lemma loop_retry:
  "clock w < end_time \<Longrightarrow> attempt_connect_hotspot nmcli ssid password w = (Inr text, w1) \<Longrightarrow>
   \<not> py_in ''Success'' text \<Longrightarrow>
   hotspot_scanning_loop nmcli ssid password end_time w =
     hotspot_scanning_loop nmcli ssid password end_time (sleep 5 w1)"
  by (subst hotspot_scanning_loop.simps) simp

text \<open>The log of a run, whatever the tool does.\<close>

lemma loop_log:
  "\<exists>new. ran (snd (hotspot_scanning_loop nmcli ssid password end_time w)) = ran w @ new
     \<and> list_all (\<lambda>(s, f, c). s \<le> f \<and> s < end_time \<and> c = connection_command ssid password) new
     \<and> spaced 5 new
     \<and> (new = [] \<or> fst (hd new) = clock w)
     \<and> (clock w < end_time \<longrightarrow> new \<noteq> [])"
proof (induction nmcli ssid password end_time w rule: hotspot_scanning_loop.induct)
  case (1 nmcli ssid password end_time w)
  let ?cmd = "connection_command ssid password"
  show ?case
  proof (cases "clock w < end_time")
    case False
    then show ?thesis
      by (simp add: loop_stop)
  next
    case True
    obtain d r where run: "nmcli (length (ran w)) ?cmd = (d, r)"
      by (cases "nmcli (length (ran w)) ?cmd")
    let ?w1 = "w\<lparr>clock := clock w + d, ran := ran w @ [(clock w, clock w + d, ?cmd)]\<rparr>"
    have attempt: "attempt_connect_hotspot nmcli ssid password w = (map_sum id result_text r, ?w1)"
      using run by (rule attempt_connect_hotspot_run)
    have one: "hotspot_scanning_loop nmcli ssid password end_time w = (x, ?w1) \<Longrightarrow> ?thesis" for x
      using True by simp
    show ?thesis
    proof (cases r)
      case (Inl e)
      with attempt True show ?thesis
        by (intro one) (simp add: loop_raise)
    next
      case (Inr res)
      show ?thesis
      proof (cases "py_in ''Success'' (result_text res)")
        case True
        with attempt Inr \<open>clock w < end_time\<close> show ?thesis
          by (intro one) (simp add: loop_success)
      next
        case False
        with attempt Inr \<open>clock w < end_time\<close>
        have step: "hotspot_scanning_loop nmcli ssid password end_time w =
            hotspot_scanning_loop nmcli ssid password end_time (sleep 5 ?w1)"
          by (simp add: loop_retry)
        from "1.IH" [OF \<open>clock w < end_time\<close> attempt [symmetric]] Inr False
        obtain new where new:
          "ran (snd (hotspot_scanning_loop nmcli ssid password end_time (sleep 5 ?w1))) =
             ran (sleep 5 ?w1) @ new"
          "list_all (\<lambda>(s, f, c). s \<le> f \<and> s < end_time \<and> c = ?cmd) new"
          "spaced 5 new"
          "new = [] \<or> fst (hd new) = clock (sleep 5 ?w1)"
          by auto
        from new(3,4) have "spaced 5 ((clock w, clock w + d, ?cmd) # new)"
          by (cases new) (auto simp: sleep_def)
        with new(1,2) step \<open>clock w < end_time\<close> show ?thesis
          by (intro exI [of _ "(clock w, clock w + d, ?cmd) # new"]) (simp add: sleep_def)
      qed
    qed
  qed
qed


text \<open>A run in which no attempt raises and no returned text contains \<^verbatim>\<open>Success\<close>.\<close>

lemma loop_all_fail:
  assumes fail: "\<And>n c. \<exists>d r. nmcli n c = (d, Inr r) \<and> d \<le> dmax
                    \<and> \<not> py_in ''Success'' (result_text r)"
  shows "fst (hotspot_scanning_loop nmcli ssid password end_time w) = Inr ()
    \<and> end_time \<le> clock (snd (hotspot_scanning_loop nmcli ssid password end_time w))
    \<and> (clock w < end_time \<longrightarrow>
         clock (snd (hotspot_scanning_loop nmcli ssid password end_time w)) <
           end_time + dmax + 5)"
  using fail
proof (induction nmcli ssid password end_time w rule: hotspot_scanning_loop.induct)
  case (1 nmcli ssid password end_time w)
  let ?cmd = "connection_command ssid password"
  show ?case
  proof (cases "clock w < end_time")
    case False
    then show ?thesis
      by (simp add: loop_stop)
  next
    case True
    from "1.prems" obtain d r where run: "nmcli (length (ran w)) ?cmd = (d, Inr r)"
      and d: "d \<le> dmax" and r: "\<not> py_in ''Success'' (result_text r)"
      by blast
    let ?w1 = "w\<lparr>clock := clock w + d, ran := ran w @ [(clock w, clock w + d, ?cmd)]\<rparr>"
    have attempt: "attempt_connect_hotspot nmcli ssid password w = (Inr (result_text r), ?w1)"
      using run by (simp add: attempt_connect_hotspot_run)
    with True r
    have step: "hotspot_scanning_loop nmcli ssid password end_time w =
        hotspot_scanning_loop nmcli ssid password end_time (sleep 5 ?w1)"
      by (simp add: loop_retry)
    note ih = "1.IH" [OF True attempt [symmetric] refl r "1.prems"]
    show ?thesis
    proof (cases "clock (sleep 5 ?w1) < end_time")
      case True
      with ih step show ?thesis
        by simp
    next
      case False
      then have "hotspot_scanning_loop nmcli ssid password end_time (sleep 5 ?w1) =
          (Inr (), sleep 5 ?w1)"
        by (rule loop_stop)
      with step False \<open>clock w < end_time\<close> d show ?thesis
        by (simp add: sleep_def)
    qed
  qed
qed

text \<open>
  Attempts that take no time are made every 5 time units from 0 to 115, and the loop
  ends at 120 without an attempt there.
\<close>

lemma retry_loop_instant_attempts:
  "map fst (ran (snd (hotspot_scanning (always 0 [] ''Error: network not found.'') ''HomeNet''
          (Some ''secret'') initial_world))) =
     [0, 5, 10, 15, 20, 25, 30, 35, 40, 45, 50, 55, 60, 65, 70, 75, 80, 85, 90, 95, 100, 105,
      110, 115]
   \<and> clock (snd (hotspot_scanning (always 0 [] ''Error: network not found.'') ''HomeNet''
          (Some ''secret'') initial_world)) = 120"
  by code_simp

text \<open>
  The loop's test is on the text of \<^verbatim>\<open>attempt_connect_hotspot\<close>, which starts with
  \<^verbatim>\<open>Success\<close> whenever the tool wrote to its standard output only: an attempt that
  \<^verbatim>\<open>submit\<close> would report as a failure ends the loop at once.
\<close>

lemma stdout_text_ends_retry_loop:
  "response_for \<lparr>stdout = ''Error: Connection activation failed'', stderr = []\<rparr> =
     [(''status'', ''error''), (''message'', ''Connection activation failed.'')]
   \<and> map fst (ran (snd (hotspot_scanning (always 2 ''Error: Connection activation failed'' [])
          ''HomeNet'' (Some ''secret'') initial_world))) = [0]
   \<and> clock (snd (hotspot_scanning (always 2 ''Error: Connection activation failed'' [])
          ''HomeNet'' (Some ''secret'') initial_world)) = 2"
  by code_simp

text \<open>
  With attempts of 2 time units that all fail, the attempts start at 0, 7, 14, ... and the
  last one at 119; the loop ends at 126.
\<close>

lemma loop_with_slow_attempts:
  "fst (hotspot_scanning (always 2 [] ''Error: network not found.'') ''HomeNet''
          (Some ''secret'') initial_world) = Inr ()
   \<and> map fst (ran (snd (hotspot_scanning (always 2 [] ''Error: network not found.'')
          ''HomeNet'' (Some ''secret'') initial_world))) =
       [0, 7, 14, 21, 28, 35, 42, 49, 56, 63, 70, 77, 84, 91, 98, 105, 112, 119]
   \<and> clock (snd (hotspot_scanning (always 2 [] ''Error: network not found.'') ''HomeNet''
          (Some ''secret'') initial_world)) = 126
   \<and> \<not> clock (snd (hotspot_scanning (always 2 [] ''Error: network not found.'') ''HomeNet''
          (Some ''secret'') initial_world)) \<le> 120 + 2"
  by code_simp

end
